theory Spec2Isabelle
  imports Main Complex_Main "HOL-Library.Word"
begin

section \<open>The JNI bridge for whisper.cpp (whisper\_jni.cpp) and its stub\<close>

text \<open>
  The bridge keeps two process-wide variables, \<open>g_ctx\<close> (the model context, or nullptr)
  and \<open>g_params\<close> (the inference parameters). Every JNI entry point is modelled as a
  function from the state before the call to the returned value and the state after it.
  The inference engine (whisper.h), the file system and \<open>std::thread\<close> are not part of the
  bridge: they are parameters of the model, collected in the record \<open>env\<close>.
  Every call of the bridge into the engine, every \<open>fopen\<close>/\<open>fclose\<close> and every log line
  is appended to a trace, so that "no engine call" and "no file access" are statements
  about the trace.
\<close>

subsection \<open>Machine types\<close>

type_synonym int32_t = "32 word"
type_synonym int16_t = "16 word"
type_synonym byte = "8 word"
type_synonym jint = "32 word"
type_synonym jboolean = "8 word"

text \<open>
  A \<open>jstring\<close> argument is represented by what \<open>env->GetStringUTFChars\<close> yields for it:
  \<open>None\<close> when the call returns nullptr (the string cannot be decoded), \<open>Some cs\<close> for the
  characters otherwise. The empty Java string decodes to \<open>Some []\<close>.
\<close>

type_synonym jstring = "string option"

definition GetStringUTFChars :: "jstring \<Rightarrow> string option" where
  "GetStringUTFChars js = js"

subsection \<open>Parameters (struct whisper\_params, lines 28-39)\<close>

record whisper_params =
  n_threads :: int32_t
  offset_ms :: int32_t
  duration_ms :: int32_t
  translate :: bool
  print_special :: bool
  print_progress :: bool
  no_timestamps :: bool
  language :: string

definition default_whisper_params :: whisper_params where
  "default_whisper_params =
     \<lparr> n_threads = 4, offset_ms = 0, duration_ms = 0, translate = False,
       print_special = False, print_progress = False, no_timestamps = True,
       language = ''en'' \<rparr>"

subsection \<open>The engine's types, as far as the bridge touches them\<close>

datatype whisper_sampling_strategy = WHISPER_SAMPLING_GREEDY | WHISPER_SAMPLING_BEAM_SEARCH

record whisper_context_params =
  use_gpu :: bool

record whisper_full_params =
  strategy :: whisper_sampling_strategy
  wp_n_threads :: int32_t
  wp_offset_ms :: int32_t
  wp_duration_ms :: int32_t
  wp_translate :: bool
  wp_single_segment :: bool
  wp_print_special :: bool
  wp_print_progress :: bool
  wp_print_realtime :: bool
  wp_print_timestamps :: bool
  wp_language :: string

subsection \<open>Trace of external effects\<close>

datatype log_level = LOG_INFO | LOG_ERROR | LOG_DEBUG | LOG_WARN

datatype 'ctx event =
    Log log_level string
  | Whisper_free 'ctx
  | Whisper_context_default_params
  | Whisper_init_from_file_with_params string whisper_context_params
  | Whisper_full_default_params whisper_sampling_strategy
  | Whisper_full 'ctx whisper_full_params "real list"
  | Whisper_full_n_segments 'ctx
  | Whisper_full_get_segment_text 'ctx nat
  | Whisper_print_system_info
  | Fopen string
  | Fclose string

fun is_engine_call :: "'ctx event \<Rightarrow> bool" where
  "is_engine_call (Log _ _) = False"
| "is_engine_call (Fopen _) = False"
| "is_engine_call (Fclose _) = False"
| "is_engine_call _ = True"

fun is_file_access :: "'ctx event \<Rightarrow> bool" where
  "is_file_access (Fopen _) = True"
| "is_file_access (Fclose _) = True"
| "is_file_access _ = False"

fun is_inference :: "'ctx event \<Rightarrow> bool" where
  "is_inference (Whisper_full _ _ _) = True"
| "is_inference _ = False"

subsection \<open>The environment of the bridge\<close>

text \<open>
  \<open>'ctx\<close> is the engine's \<open>whisper_context\<close>. \<open>whisper_full\<close> stores its result in the
  context; the model returns the status together with the context after the call.
  \<open>files\<close> maps a path to the stream \<open>fopen(path, "rb")\<close> opens, \<open>None\<close> when the
  file cannot be opened. A stream is the bytes it delivers up to end of file, and
  whether it can be repositioned: a regular file can, a FIFO or a pipe cannot.
\<close>

record c_file =
  file_bytes :: "byte list"
  seekable :: bool

record 'ctx env =
  whisper_context_default_params :: whisper_context_params
  whisper_init_from_file_with_params :: "string \<Rightarrow> whisper_context_params \<Rightarrow> 'ctx option"
  whisper_full_default_params :: "whisper_sampling_strategy \<Rightarrow> whisper_full_params"
  whisper_full :: "'ctx \<Rightarrow> whisper_full_params \<Rightarrow> real list \<Rightarrow> int32_t \<times> 'ctx"
  whisper_full_n_segments :: "'ctx \<Rightarrow> int32_t"
  whisper_full_get_segment_text :: "'ctx \<Rightarrow> nat \<Rightarrow> string option"
  whisper_print_system_info :: string
  hardware_concurrency :: "32 word"
  files :: "string \<Rightarrow> c_file option"

subsection \<open>The global state (lines 22-40)\<close>

record 'ctx jni_state =
  g_ctx :: "'ctx option"
  g_params :: whisper_params
  trace :: "'ctx event list"

definition initial_state :: "'ctx jni_state" where
  "initial_state = \<lparr> g_ctx = None, g_params = default_whisper_params, trace = [] \<rparr>"

definition emit :: "'ctx event \<Rightarrow> 'ctx jni_state \<Rightarrow> 'ctx jni_state" where
  "emit e s = s\<lparr> trace := trace s @ [e] \<rparr>"

text \<open>The events a call appended: the trace after it, without the trace before it.\<close>

definition new_events :: "'ctx jni_state \<Rightarrow> 'ctx jni_state \<Rightarrow> 'ctx event list" where
  "new_events s s' = drop (length (trace s)) (trace s')"

subsection \<open>The WAV reader (lines 118-139)\<close>

text \<open>
  \<open>static_cast<float>(sample) / 32768.0f\<close>. Every 16-bit integer is a binary32 value
  (24 bits of significand) and 32768 is a power of two, so both the conversion and the
  division are exact: the float is the rational number \<open>sample / 32768\<close>.
\<close>

definition sample_to_float :: "int16_t \<Rightarrow> real" where
  "sample_to_float sample = real_of_int (sint sample) / 32768"

text \<open>
  \<open>fread(&sample, sizeof(int16_t), 1, file)\<close> stores the next two bytes of the file at
  the address of \<open>sample\<close>; every Android ABI is little-endian, so the first byte is
  the low one. With fewer than two bytes left it returns 0.
\<close>

definition int16_of_bytes :: "byte \<Rightarrow> byte \<Rightarrow> int16_t" where
  "int16_of_bytes b0 b1 = word_cat b1 b0"

text \<open>The loop \<open>while (fread(...) == 1) pcm_data.push_back(...)\<close> on the unread bytes.\<close>

fun read_samples :: "real list \<Rightarrow> byte list \<Rightarrow> real list" where
  "read_samples pcm_data (b0 # b1 # rest) =
     read_samples (pcm_data @ [sample_to_float (int16_of_bytes b0 b1)]) rest"
| "read_samples pcm_data _ = pcm_data"

text \<open>
  \<open>fseek(file, offset, SEEK_SET)\<close> on a stream just opened, as its return value and
  the position of the stream after the call. On a stream that can be repositioned it
  returns 0 and the position is \<open>offset\<close>, also when the file is shorter (every read
  then fails at once). On one that cannot it fails (\<open>ESPIPE\<close>), returns -1 and the
  position stays 0.
\<close>

definition fseek_set :: "c_file \<Rightarrow> nat \<Rightarrow> int \<times> nat" where
  "fseek_set file offset = (if seekable file then (0, offset) else (- 1, 0))"

text \<open>
  Lines 129-136. Line 130 drops the return value of \<open>fseek\<close>: the loop reads from the
  position the call left, whether it succeeded or not.
\<close>

definition read_wav :: "c_file \<Rightarrow> real list" where
  "read_wav file =
     (let (ret, pos) = fseek_set file 44
      in read_samples [] (drop pos (file_bytes file)))"

subsection \<open>initModel (lines 49-90)\<close>

text \<open>\<open>std::min(a, b)\<close> on \<open>int\<close>: \<open>(b < a) ? b : a\<close>, a signed comparison.\<close>

definition std_min :: "int32_t \<Rightarrow> int32_t \<Rightarrow> int32_t" where
  "std_min a b = (if sint b < sint a then b else a)"

text \<open>Lines 58-61: \<open>if (g_ctx != nullptr) { whisper_free(g_ctx); g_ctx = nullptr; }\<close>\<close>

definition free_ctx :: "'ctx jni_state \<Rightarrow> 'ctx jni_state" where
  "free_ctx s =
     (case g_ctx s of
        None \<Rightarrow> s
      | Some c \<Rightarrow> (emit (Whisper_free c) s)\<lparr> g_ctx := None \<rparr>)"

text \<open>
  \<open>int n_cores = std::thread::hardware_concurrency()\<close> converts the \<open>unsigned\<close> result
  to \<open>int\<close>; the bits stay, so the word is used as it is and read as signed by \<open>std_min\<close>.
\<close>

definition initModel :: "'ctx env \<Rightarrow> jstring \<Rightarrow> 'ctx jni_state \<Rightarrow> jint \<times> 'ctx jni_state" where
  "initModel env modelPath s =
     (let s1 = free_ctx s in
      case GetStringUTFChars modelPath of
        None \<Rightarrow> (- 1, emit (Log LOG_ERROR ''Failed to get model path string'') s1)
      | Some path \<Rightarrow>
          let s2 = emit (Log LOG_INFO ''Loading whisper model from: %s'') s1;
              cparams = (whisper_context_default_params env)\<lparr> use_gpu := False \<rparr>;
              s3 = emit Whisper_context_default_params s2;
              ctx = whisper_init_from_file_with_params env path cparams;
              s4 = (emit (Whisper_init_from_file_with_params path cparams) s3)\<lparr> g_ctx := ctx \<rparr>
          in (case ctx of
                None \<Rightarrow> (- 2, emit (Log LOG_ERROR ''Failed to initialize whisper model'') s4)
              | Some _ \<Rightarrow>
                  let n_cores = hardware_concurrency env;
                      s5 = s4\<lparr> g_params := (g_params s4)\<lparr> n_threads := std_min n_cores 4 \<rparr> \<rparr>
                  in (0, emit (Log LOG_INFO
                         ''Whisper model initialized successfully (threads: %d)'') s5)))"

subsection \<open>transcribe (lines 97-185)\<close>

text \<open>Lines 151-164: the inference request built from \<open>g_params\<close>.\<close>

definition make_wparams :: "'ctx env \<Rightarrow> whisper_params \<Rightarrow> whisper_full_params" where
  "make_wparams env p =
     (whisper_full_default_params env WHISPER_SAMPLING_GREEDY)
       \<lparr> wp_print_realtime := False,
         wp_print_progress := print_progress p,
         wp_print_timestamps := (\<not> no_timestamps p),
         wp_print_special := print_special p,
         wp_translate := translate p,
         wp_language := language p,
         wp_n_threads := n_threads p,
         wp_offset_ms := offset_ms p,
         wp_duration_ms := duration_ms p,
         wp_single_segment := True \<rparr>"

text \<open>
  Lines 172-180: \<open>for (int i = 0; i < n_segments; ++i)\<close> appends every segment text
  that is not nullptr. A negative \<open>n_segments\<close> gives no iteration.
\<close>

definition segment_indices :: "int32_t \<Rightarrow> nat list" where
  "segment_indices n_segments = [0 ..< nat (sint n_segments)]"

definition append_segment :: "'ctx env \<Rightarrow> 'ctx \<Rightarrow> string \<Rightarrow> nat \<Rightarrow> string" where
  "append_segment env ctx result i =
     (case whisper_full_get_segment_text env ctx i of
        None \<Rightarrow> result
      | Some text \<Rightarrow> result @ text)"

definition collect_segments :: "'ctx env \<Rightarrow> 'ctx \<Rightarrow> int32_t \<Rightarrow> string" where
  "collect_segments env ctx n_segments =
     foldl (append_segment env ctx) [] (segment_indices n_segments)"

text \<open>Lines 150-184: the part of \<open>transcribe\<close> after the samples are read.\<close>

definition run_inference ::
  "'ctx env \<Rightarrow> 'ctx \<Rightarrow> real list \<Rightarrow> 'ctx jni_state \<Rightarrow> string \<times> 'ctx jni_state" where
  "run_inference env ctx pcm_data s =
     (let s1 = emit (Whisper_full_default_params WHISPER_SAMPLING_GREEDY) s;
          wparams = make_wparams env (g_params s1);
          (status, ctx') = whisper_full env ctx wparams pcm_data;
          s2 = (emit (Whisper_full ctx wparams pcm_data) s1)\<lparr> g_ctx := Some ctx' \<rparr>
      in if status \<noteq> 0 then ('''', emit (Log LOG_ERROR ''Whisper inference failed'') s2)
         else
           let n_segments = whisper_full_n_segments env ctx';
               s3 = emit (Whisper_full_n_segments ctx') s2;
               result = collect_segments env ctx' n_segments;
               s4 = s3\<lparr> trace := trace s3 @
                      map (Whisper_full_get_segment_text ctx') (segment_indices n_segments) \<rparr>
           in (result, emit (Log LOG_INFO ''Transcription complete: %zu chars'') s4))"

definition transcribe :: "'ctx env \<Rightarrow> jstring \<Rightarrow> 'ctx jni_state \<Rightarrow> string \<times> 'ctx jni_state" where
  "transcribe env audioPath s =
     (case g_ctx s of
        None \<Rightarrow> ('''', emit (Log LOG_ERROR ''Model not initialized'') s)
      | Some ctx \<Rightarrow>
          (case GetStringUTFChars audioPath of
             None \<Rightarrow> ('''', emit (Log LOG_ERROR ''Failed to get audio path string'') s)
           | Some path \<Rightarrow>
               let s1 = emit (Fopen path) (emit (Log LOG_INFO ''Transcribing audio: %s'') s)
               in (case files env path of
                     None \<Rightarrow> ('''', emit (Log LOG_ERROR ''Failed to open audio file: %s'') s1)
                   | Some file \<Rightarrow>
                       let pcm_data = read_wav file;
                           s2 = emit (Fclose path) s1
                       in if pcm_data = []
                          then ('''', emit (Log LOG_ERROR ''No audio data read'') s2)
                          else run_inference env ctx pcm_data
                                 (emit (Log LOG_DEBUG ''Audio samples: %zu'') s2))))"

subsection \<open>transcribeWithParams (lines 190-218)\<close>

text \<open>
  \<open>g_params.translate = translate\<close> converts the \<open>jboolean\<close> (an unsigned byte) to
  \<open>bool\<close>: true for every value but 0. \<open>threads > 0\<close> is a signed comparison.
\<close>

definition update_params :: "jstring \<Rightarrow> jboolean \<Rightarrow> jint \<Rightarrow> whisper_params \<Rightarrow> whisper_params" where
  "update_params language_arg translate_arg threads p =
     (let p1 = (case GetStringUTFChars language_arg of
                  None \<Rightarrow> p
                | Some lang \<Rightarrow> p\<lparr> language := lang \<rparr>);
          p2 = p1\<lparr> translate := (translate_arg \<noteq> 0) \<rparr>
      in if 0 < sint threads then p2\<lparr> n_threads := threads \<rparr> else p2)"

definition transcribeWithParams ::
  "'ctx env \<Rightarrow> jstring \<Rightarrow> jstring \<Rightarrow> jboolean \<Rightarrow> jint \<Rightarrow> 'ctx jni_state
     \<Rightarrow> string \<times> 'ctx jni_state" where
  "transcribeWithParams env audioPath language_arg translate_arg threads s =
     transcribe env audioPath
       (s\<lparr> g_params := update_params language_arg translate_arg threads (g_params s) \<rparr>)"

subsection \<open>releaseModel and getVersion (lines 223-246)\<close>

definition releaseModel :: "'ctx jni_state \<Rightarrow> 'ctx jni_state" where
  "releaseModel s =
     (case g_ctx s of
        None \<Rightarrow> s
      | Some c \<Rightarrow>
          emit (Log LOG_INFO ''Whisper model released'')
            ((emit (Whisper_free c) s)\<lparr> g_ctx := None \<rparr>))"

definition getVersion :: "'ctx env \<Rightarrow> 'ctx jni_state \<Rightarrow> string \<times> 'ctx jni_state" where
  "getVersion env s = (whisper_print_system_info env, emit Whisper_print_system_info s)"

subsection \<open>The stub (whisper\_jni\_stub.cpp)\<close>

text \<open>
  The stub has no global variable and is given no engine and no file system: its only
  effect is the warning it logs, so its state is the trace alone.
\<close>

definition stub_initModel :: "jstring \<Rightarrow> 'ctx event list \<Rightarrow> jint \<times> 'ctx event list" where
  "stub_initModel modelPath tr =
     (- 1, tr @ [Log LOG_WARN ''Whisper stub: initModel called - native library not available''])"

definition stub_transcribe :: "jstring \<Rightarrow> 'ctx event list \<Rightarrow> string \<times> 'ctx event list" where
  "stub_transcribe audioPath tr =
     ('''', tr @ [Log LOG_WARN ''Whisper stub: transcribe called - native library not available''])"

definition stub_transcribeWithParams ::
  "jstring \<Rightarrow> jstring \<Rightarrow> jboolean \<Rightarrow> jint \<Rightarrow> 'ctx event list \<Rightarrow> string \<times> 'ctx event list" where
  "stub_transcribeWithParams audioPath language_arg translate_arg threads tr =
     ('''', tr @ [Log LOG_WARN
        ''Whisper stub: transcribeWithParams called - native library not available''])"

definition stub_releaseModel :: "'ctx event list \<Rightarrow> 'ctx event list" where
  "stub_releaseModel tr = tr @ [Log LOG_WARN ''Whisper stub: releaseModel called'']"

definition stub_getVersion :: "'ctx event list \<Rightarrow> string \<times> 'ctx event list" where
  "stub_getVersion tr = (''stub-1.0 (whisper.cpp not available)'', tr)"

subsection \<open>Sequences of calls\<close>

text \<open>
  A reachable state is what a sequence of calls of the entry points makes of the initial
  state. Each call comes with the environment it runs in, since the files and the
  engine's answers may change between calls.
\<close>

datatype call =
    InitModel jstring
  | Transcribe jstring
  | TranscribeWithParams jstring jstring jboolean jint
  | ReleaseModel
  | GetVersion

fun step :: "'ctx env \<Rightarrow> call \<Rightarrow> 'ctx jni_state \<Rightarrow> 'ctx jni_state" where
  "step env (InitModel p) s = snd (initModel env p s)"
| "step env (Transcribe a) s = snd (transcribe env a s)"
| "step env (TranscribeWithParams a l t n) s = snd (transcribeWithParams env a l t n s)"
| "step env ReleaseModel s = releaseModel s"
| "step env GetVersion s = snd (getVersion env s)"

fun run :: "('ctx env \<times> call) list \<Rightarrow> 'ctx jni_state \<Rightarrow> 'ctx jni_state" where
  "run [] s = s"
| "run ((env, c) # cs) s = run cs (step env c s)"

text \<open>The hardware reports at least one core in every call of the sequence.\<close>

fun cores_known :: "('ctx env \<times> call) list \<Rightarrow> bool" where
  "cores_known [] = True"
| "cores_known ((env, c) # cs) = (0 < sint (hardware_concurrency env) \<and> cores_known cs)"

subsection \<open>Vocabulary of the specification\<close>

text \<open>
  The specification speaks of a file made of a header and \<open>N\<close> complete 2-byte
  little-endian signed samples. \<open>encode_samples\<close> is that byte sequence, written from
  the specification's words and independent of the reader above: the low byte of each
  sample first, then the high byte.
\<close>

definition sample_bytes :: "int16_t \<Rightarrow> byte list" where
  "sample_bytes x = [ucast x, ucast (drop_bit 8 x)]"

definition encode_samples :: "int16_t list \<Rightarrow> byte list" where
  "encode_samples xs = concat (map sample_bytes xs)"

text \<open>An event that leaves the bridge: a call into the engine or a file access.\<close>

definition is_external :: "'ctx event \<Rightarrow> bool" where
  "is_external e = (is_engine_call e \<or> is_file_access e)"

text \<open>
  The finite binary32 numbers: a significand of at most 24 bits and an exponent between
  that of the smallest subnormal and that of the largest normal number.
\<close>

definition binary32_representable :: "real \<Rightarrow> bool" where
  "binary32_representable r =
     (\<exists>m e :: int. \<bar>m\<bar> < 2 ^ 24 \<and> - 149 \<le> e \<and> e \<le> 104 \<and> r = of_int m * 2 powi e)"

subsection \<open>Concrete data for the examples\<close>

text \<open>
  A small engine whose contexts are natural numbers: it loads every model except
  \<open>''missing.bin''\<close>, and an inference stores the number of samples in the context and
  yields one segment, \<open>''hello''\<close>. The file system holds three regular audio files
  and two FIFOs, whose writers send what the regular files of the same name hold.
\<close>

definition wav_header :: "byte list" where
  "wav_header = replicate 44 0"

definition regular_file :: "byte list \<Rightarrow> c_file" where
  "regular_file bytes = \<lparr> file_bytes = bytes, seekable = True \<rparr>"

definition fifo :: "byte list \<Rightarrow> c_file" where
  "fifo bytes = \<lparr> file_bytes = bytes, seekable = False \<rparr>"

definition example_files :: "string \<Rightarrow> c_file option" where
  "example_files path =
     (if path = ''two.wav'' then Some (regular_file (wav_header @ [0, 64, 0, 128]))
      else if path = ''header.wav'' then Some (regular_file wav_header)
      else if path = ''short.wav'' then Some (regular_file [82, 73, 70, 70])
      else if path = ''two.fifo'' then Some (fifo (wav_header @ [0, 64, 0, 128]))
      else if path = ''header.fifo'' then Some (fifo wav_header)
      else None)"

definition example_env :: "32 word \<Rightarrow> nat env" where
  "example_env cores =
     \<lparr> whisper_context_default_params = \<lparr> use_gpu = True \<rparr>,
       whisper_init_from_file_with_params =
         (\<lambda>path cp. if path = ''missing.bin'' then None else Some 0),
       whisper_full_default_params =
         (\<lambda>st. \<lparr> strategy = st, wp_n_threads = 1, wp_offset_ms = 0, wp_duration_ms = 0,
                 wp_translate = False, wp_single_segment = False, wp_print_special = False,
                 wp_print_progress = True, wp_print_realtime = True,
                 wp_print_timestamps = True, wp_language = ''auto'' \<rparr>),
       whisper_full = (\<lambda>ctx wp pcm. (0, length pcm)),
       whisper_full_n_segments = (\<lambda>ctx. 1),
       whisper_full_get_segment_text = (\<lambda>ctx i. Some ''hello''),
       whisper_print_system_info = ''NEON = 1'',
       hardware_concurrency = cores,
       files = example_files \<rparr>"

definition loaded_state :: "nat jni_state" where
  "loaded_state = \<lparr> g_ctx = Some 7, g_params = default_whisper_params, trace = [] \<rparr>"

section \<open>Basic facts\<close>

lemma emit_simps [simp]:
  "trace (emit e s) = trace s @ [e]"
  "g_ctx (emit e s) = g_ctx s"
  "g_params (emit e s) = g_params s"
  by (simp_all add: emit_def)

lemma free_ctx_simps:
  "g_ctx (free_ctx s) = None"
  "g_params (free_ctx s) = g_params s"
  "trace (free_ctx s) = trace s @ (case g_ctx s of None \<Rightarrow> [] | Some c \<Rightarrow> [Whisper_free c])"
  by (simp_all add: free_ctx_def split: option.splits)

text \<open>No entry point but \<open>transcribeWithParams\<close> and \<open>initModel\<close> writes \<open>g_params\<close>.\<close>

lemma run_inference_params: "g_params (snd (run_inference env ctx pcm s)) = g_params s"
  by (simp add: run_inference_def Let_def split: prod.splits)

lemma transcribe_params: "g_params (snd (transcribe env a s)) = g_params s"
  by (simp add: transcribe_def GetStringUTFChars_def Let_def run_inference_params
      split: option.splits)

lemma releaseModel_params: "g_params (releaseModel s) = g_params s"
  by (simp add: releaseModel_def split: option.splits)

section \<open>The WAV reader\<close>

text \<open>Reading the two bytes of a sample back gives the sample.\<close>

lemma int16_of_sample_bytes: "int16_of_bytes (ucast x) (ucast (drop_bit 8 x)) = (x :: int16_t)"
  unfolding int16_of_bytes_def
  by (rule bit_word_eqI) (auto simp: bit_word_cat_iff bit_ucast_iff bit_drop_bit_eq)

text \<open>\<open>push_back\<close> only ever extends the vector: the loop appends to what it was given.\<close>

lemma read_samples_acc: "read_samples acc bs = acc @ read_samples [] bs"
proof (induction bs arbitrary: acc rule: induct_list012)
  case (3 b0 b1 rest)
  have "read_samples acc (b0 # b1 # rest) =
        (acc @ [sample_to_float (int16_of_bytes b0 b1)]) @ read_samples [] rest"
    using "3.IH"(1) [of "acc @ [sample_to_float (int16_of_bytes b0 b1)]"] by simp
  moreover have "read_samples [] (b0 # b1 # rest) =
        [sample_to_float (int16_of_bytes b0 b1)] @ read_samples [] rest"
    using "3.IH"(1) [of "[sample_to_float (int16_of_bytes b0 b1)]"] by simp
  ultimately show ?case by simp
qed simp_all

lemma read_samples_encode: "read_samples [] (encode_samples xs) = map sample_to_float xs"
proof (induction xs)
  case Nil
  show ?case by (simp add: encode_samples_def)
next
  case (Cons x xs)
  have "read_samples [] (encode_samples (x # xs)) =
        read_samples [sample_to_float x] (encode_samples xs)"
    by (simp add: encode_samples_def sample_bytes_def int16_of_sample_bytes)
  also have "\<dots> = sample_to_float x # read_samples [] (encode_samples xs)"
    using read_samples_acc [of "[sample_to_float x]"] by simp
  finally show ?case using Cons by simp
qed

lemma sample_to_float_range: "- 1 \<le> sample_to_float x \<and> sample_to_float x < 1"
proof -
  have "- 32768 \<le> sint x" "sint x < 32768"
    using sint_ge [of x] sint_lt [of x] by simp_all
  then have "- 32768 \<le> real_of_int (sint x)" "real_of_int (sint x) < 32768"
    by (simp_all del: of_int_sint)
  then show ?thesis unfolding sample_to_float_def by (simp del: of_int_sint)
qed

text \<open>
  The quotient is a binary32 number, so the correctly rounded float division of the
  source returns it unchanged: the reals of the model are the floats of the program.
\<close>

lemma two_powi_minus_15: "(2::real) powi (- 15) = 1 / 32768"
  by (simp add: power_int_def power_divide)

lemma sample_to_float_exact: "binary32_representable (sample_to_float x)"
proof -
  have "- 32768 \<le> sint x" "sint x < 32768"
    using sint_ge [of x] sint_lt [of x] by simp_all
  then have b: "\<bar>sint x\<bar> < 2 ^ 24" by simp
  have e: "sample_to_float x = of_int (sint x) * 2 powi (- 15)"
    unfolding sample_to_float_def two_powi_minus_15 by (simp del: of_int_sint)
  show ?thesis
    unfolding binary32_representable_def
  proof (intro exI conjI)
    show "\<bar>sint x\<bar> < 2 ^ 24" by (rule b)
    show "sample_to_float x = of_int (sint x) * 2 powi (- 15)" by (rule e)
  qed simp_all
qed

lemma read_samples_short: "length bs < 2 \<Longrightarrow> read_samples acc bs = acc"
  by (cases "(acc, bs)" rule: read_samples.cases) auto

lemma read_wav_seekable: "seekable file \<Longrightarrow> read_wav file = read_samples [] (drop 44 (file_bytes file))"
  by (simp add: read_wav_def fseek_set_def)

lemma read_wav_non_seekable: "\<not> seekable file \<Longrightarrow> read_wav file = read_samples [] (file_bytes file)"
  by (simp add: read_wav_def fseek_set_def)

text \<open>On a stream that can be repositioned the reader does what line 129 announces.\<close>

lemma read_wav_seekable_decodes_samples:
  assumes "seekable file" and "file_bytes file = header @ encode_samples samples"
    and "length header = 44"
  shows "read_wav file = map (\<lambda>x. real_of_int (sint x) / 32768) samples"
proof -
  have "read_wav file = map sample_to_float samples"
    using assms by (simp add: read_wav_seekable read_samples_encode)
  then show ?thesis by (simp add: sample_to_float_def del: of_int_sint)
qed

lemma read_wav_seekable_short:
  "seekable file \<Longrightarrow> length (file_bytes file) \<le> 45 \<Longrightarrow> read_wav file = []"
  by (simp add: read_wav_seekable read_samples_short)

text \<open>
  On a stream that cannot be repositioned nothing is skipped: a header that is the
  bytes of 22 samples is decoded as 22 samples ahead of the audio.
\<close>

lemma encode_samples_append: "encode_samples (xs @ ys) = encode_samples xs @ encode_samples ys"
  by (simp add: encode_samples_def)

lemma read_wav_non_seekable_decodes_header:
  assumes "\<not> seekable file"
    and "file_bytes file = encode_samples header_samples @ encode_samples samples"
  shows "read_wav file = map sample_to_float header_samples @ map sample_to_float samples"
  using assms
  by (simp add: read_wav_non_seekable read_samples_encode
      encode_samples_append [symmetric] del: map_append)
     simp

lemma wav_header_encoded: "wav_header = encode_samples (replicate 22 0)"
proof -
  have "encode_samples (replicate n 0) = replicate (2 * n) 0" for n
    by (induction n) (simp_all add: encode_samples_def sample_bytes_def)
  from this [of 22] show ?thesis by (simp add: wav_header_def)
qed

lemma two_samples_encoded: "[0, 64, 0, 128] = encode_samples [16384, - 32768]"
  by (simp add: encode_samples_def sample_bytes_def)

lemma sample_to_float_values:
  "sample_to_float 0 = 0" "sample_to_float 16384 = 1 / 2" "sample_to_float (- 32768) = - 1"
  by (simp_all add: sample_to_float_def del: of_int_sint)

lemma read_wav_two_fifo:
  "read_wav (fifo (wav_header @ [0, 64, 0, 128])) = replicate 22 0 @ [1 / 2, - 1]"
  using read_wav_non_seekable_decodes_header
          [of "fifo (wav_header @ [0, 64, 0, 128])" "replicate 22 0" "[16384, - 32768]"]
  by (simp add: fifo_def wav_header_encoded two_samples_encoded [symmetric]
      sample_to_float_values)

lemma read_wav_header_fifo: "read_wav (fifo wav_header) = replicate 22 0"
  using read_wav_non_seekable_decodes_header [of "fifo wav_header" "replicate 22 0" "[]"]
  by (simp add: fifo_def wav_header_encoded encode_samples_def sample_to_float_values)

text \<open>The only inference of a \<open>transcribe\<close> call is on the samples the reader produced.\<close>

lemma filter_segment_events:
  "filter is_inference (map (Whisper_full_get_segment_text c) ns) = []"
  by (induction ns) simp_all

lemma run_inference_events:
  assumes "length (trace s0) \<le> length (trace s)"
  shows "filter is_inference (new_events s0 (snd (run_inference env ctx pcm s))) =
         filter is_inference (new_events s0 s) @
         [Whisper_full ctx (make_wparams env (g_params s)) pcm]"
  using assms
  by (simp add: run_inference_def Let_def new_events_def filter_segment_events
      split: prod.splits)

lemma transcribe_passes_samples:
  assumes "g_ctx s = Some ctx" and "files env path = Some file" and "read_wav file \<noteq> []"
  shows "filter is_inference (new_events s (snd (transcribe env (Some path) s))) =
         [Whisper_full ctx (make_wparams env (g_params s)) (read_wav file)]"
  using assms
  by (simp add: transcribe_def GetStringUTFChars_def Let_def run_inference_events)
     (simp add: new_events_def)

text \<open>
  With a regular file, the claims about the reader hold in \<open>transcribe\<close> as well: the
  samples after the header are what the one inference receives, and a file of at most
  44 bytes ends the call before any call into the engine.
\<close>

lemma transcribe_regular_file_samples:
  assumes "g_ctx s = Some ctx" and "files env path = Some file" and "seekable file"
    and "file_bytes file = header @ encode_samples samples" and "length header = 44"
    and "samples \<noteq> []"
  shows "filter is_inference (new_events s (snd (transcribe env (Some path) s))) =
         [Whisper_full ctx (make_wparams env (g_params s))
            (map (\<lambda>x. real_of_int (sint x) / 32768) samples)]"
  using transcribe_passes_samples [OF assms(1) assms(2)]
        read_wav_seekable_decodes_samples [OF assms(3) assms(4) assms(5)] assms(6)
  by simp

lemma transcribe_regular_file_header_only:
  assumes "files env path = Some file" and "seekable file" and "length (file_bytes file) \<le> 44"
  shows "fst (transcribe env (Some path) s) = '''' \<and>
         filter is_engine_call (new_events s (snd (transcribe env (Some path) s))) = []"
  using assms
  by (simp add: read_wav_seekable_short transcribe_def GetStringUTFChars_def new_events_def
      Let_def split: option.splits)

text \<open>
  Claim C1. The reader is written to skip the 44-byte header (line 129: "Skip WAV
  header"), and on a regular file it does (\<open>read_wav_seekable_decodes_samples\<close>). But
  line 130 does not check the result of \<open>fseek\<close>. On the FIFO \<open>''two.fifo''\<close>, which
  delivers a 44-byte header and then the two samples 16384 and -32768, the call fails,
  nothing is skipped, and the reader yields 24 numbers and not 2: the header as 22
  samples, then the two. With a model loaded, these 24 numbers are what \<open>transcribe\<close>
  hands to the inference.
\<close>

theorem read_wav_fifo_decodes_header:
  "files (example_env 8) ''two.fifo'' =
     Some (fifo (wav_header @ encode_samples [16384, - 32768])) \<and>
   length wav_header = 44 \<and>
   read_wav (fifo (wav_header @ encode_samples [16384, - 32768])) =
     replicate 22 0 @ [1 / 2, - 1] \<and>
   length (read_wav (fifo (wav_header @ encode_samples [16384, - 32768]))) = 24 \<and>
   read_wav (fifo (wav_header @ encode_samples [16384, - 32768])) \<noteq>
     map (\<lambda>x. real_of_int (sint x) / 32768) [16384, - 32768 :: int16_t] \<and>
   filter is_inference
     (new_events loaded_state
        (snd (transcribe (example_env 8) (Some ''two.fifo'') loaded_state))) =
     [Whisper_full 7 (make_wparams (example_env 8) (g_params loaded_state))
        (replicate 22 0 @ [1 / 2, - 1])]"
proof -
  let ?file = "fifo (wav_header @ encode_samples [16384, - 32768])"
  have f: "files (example_env 8) ''two.fifo'' = Some ?file"
    by (simp add: example_env_def example_files_def two_samples_encoded [symmetric])
  have g: "g_ctx loaded_state = Some 7"
    by (simp add: loaded_state_def)
  have h: "length wav_header = 44"
    by (simp add: wav_header_def)
  have r: "read_wav ?file = replicate 22 0 @ [1 / 2, - 1]"
    using read_wav_two_fifo by (simp only: two_samples_encoded [symmetric])
  have n: "read_wav ?file \<noteq> []"
    unfolding r by simp
  have l: "length (read_wav ?file) = 24"
    unfolding r by simp
  have d: "read_wav ?file \<noteq> map (\<lambda>x. real_of_int (sint x) / 32768) [16384, - 32768 :: int16_t]"
  proof
    assume "read_wav ?file = map (\<lambda>x. real_of_int (sint x) / 32768) [16384, - 32768 :: int16_t]"
    then have "length (read_wav ?file) =
               length (map (\<lambda>x. real_of_int (sint x) / 32768) [16384, - 32768 :: int16_t])"
      by (rule arg_cong)
    then show False unfolding l by simp
  qed
  have i: "filter is_inference
     (new_events loaded_state
        (snd (transcribe (example_env 8) (Some ''two.fifo'') loaded_state))) =
     [Whisper_full 7 (make_wparams (example_env 8) (g_params loaded_state))
        (replicate 22 0 @ [1 / 2, - 1])]"
    using transcribe_passes_samples [OF g f n] unfolding r .
  from f h r l d i show ?thesis by (intro conjI)
qed

section \<open>Model lifecycle\<close>

text \<open>
  Claim C2 as stated fails: \<open>initModel\<close> frees the context it finds before it
  decodes the path (lines 58-61 come before line 63). With a context loaded and an
  undecodable path the call returns -1, and the context has been freed and unset.
\<close>

theorem initModel_undecodable_path_counterexample:
  "g_ctx loaded_state = Some 7 \<and>
   fst (initModel (example_env 8) None loaded_state) = - 1 \<and>
   g_ctx (snd (initModel (example_env 8) None loaded_state)) \<noteq> g_ctx loaded_state \<and>
   g_ctx (snd (initModel (example_env 8) None loaded_state)) = None \<and>
   Whisper_free 7 \<in> set (trace (snd (initModel (example_env 8) None loaded_state)))"
  by (simp add: initModel_def GetStringUTFChars_def loaded_state_def free_ctx_def emit_def)

text \<open>
  Claim C2, amended. In every state, when \<open>initModel\<close> is called and the path string
  fails to decode, it returns the path-decode failure code -1 and leaves no context
  set: a context that existed before the call is freed first, and nothing else reaches
  the engine (the call's events are that \<open>whisper_free\<close>, if any, and one error line).
\<close>

theorem initModel_undecodable_path_unsets_handle:
  "fst (initModel env None s) = - 1 \<and>
   g_ctx (snd (initModel env None s)) = None \<and>
   new_events s (snd (initModel env None s)) =
     (case g_ctx s of None \<Rightarrow> [] | Some c \<Rightarrow> [Whisper_free c]) @
     [Log LOG_ERROR ''Failed to get model path string'']"
  by (simp add: initModel_def GetStringUTFChars_def free_ctx_simps new_events_def)

lemma releaseModel_ctx: "g_ctx (releaseModel s) = None"
  by (simp add: releaseModel_def split: option.splits)

lemma releaseModel_noop: "g_ctx s = None \<Longrightarrow> releaseModel s = s"
  by (simp add: releaseModel_def)

lemma releaseModel_funpow: "(releaseModel ^^ Suc n) s = releaseModel s"
  by (induction n) (simp_all add: releaseModel_noop releaseModel_ctx)

text \<open>
  Claim C8. \<open>releaseModel\<close> leaves no context set in any state; calling it again, any
  number of times, changes nothing more; and with no context set it is the identity on
  the whole state, trace included. Its C++ type is \<open>void\<close>: there is no error to return.
\<close>

theorem releaseModel_idempotent:
  "g_ctx (releaseModel s) = None \<and>
   releaseModel (releaseModel s) = releaseModel s \<and>
   (releaseModel ^^ Suc n) s = releaseModel s \<and>
   (g_ctx s = None \<longrightarrow> releaseModel s = s)"
  using releaseModel_funpow [of n s]
  by (simp add: releaseModel_noop releaseModel_ctx)

theorem releaseModel_idempotent_witness:
  "g_ctx (initial_state :: nat jni_state) = None \<and>
   releaseModel (initial_state :: nat jni_state) = initial_state \<and>
   g_ctx (releaseModel loaded_state) = None \<and>
   releaseModel (releaseModel loaded_state) = releaseModel loaded_state"
  using releaseModel_idempotent [of "initial_state :: nat jni_state" 0]
        releaseModel_idempotent [of loaded_state 0]
  by (simp add: initial_state_def)

section \<open>Transcription\<close>

text \<open>
  Claim C5. When no context is set, \<open>transcribe\<close> returns the empty string for every
  audio path; the call's only event is the error line, so it calls no engine function
  and opens no file, and the context stays unset.
\<close>

theorem transcribe_without_model:
  "g_ctx s = None \<Longrightarrow>
   fst (transcribe env a s) = '''' \<and>
   new_events s (snd (transcribe env a s)) = [Log LOG_ERROR ''Model not initialized''] \<and>
   filter is_engine_call (new_events s (snd (transcribe env a s))) = [] \<and>
   filter is_file_access (new_events s (snd (transcribe env a s))) = [] \<and>
   g_ctx (snd (transcribe env a s)) = None"
  by (simp add: transcribe_def new_events_def)

theorem transcribe_without_model_witness:
  "g_ctx (initial_state :: nat jni_state) = None \<and>
   fst (transcribe (example_env 8) (Some ''two.wav'') initial_state) = '''' \<and>
   filter is_engine_call (new_events initial_state
      (snd (transcribe (example_env 8) (Some ''two.wav'') initial_state))) = [] \<and>
   filter is_file_access (new_events initial_state
      (snd (transcribe (example_env 8) (Some ''two.wav'') initial_state))) = []"
  using transcribe_without_model
          [of "initial_state :: nat jni_state" "example_env 8" "Some ''two.wav''"]
  by (simp add: initial_state_def)

text \<open>
  Claim C6. A regular file of at most 44 bytes decodes to no sample and ends
  \<open>transcribe\<close> with the empty string before any call into the engine
  (\<open>read_wav_seekable_short\<close>, \<open>transcribe_regular_file_header_only\<close>). But the
  unchecked \<open>fseek\<close> of line 130 fails on a stream that cannot be repositioned: on the
  FIFO \<open>''header.fifo''\<close>, which delivers exactly the 44 bytes of a header, the reader
  yields 22 samples, and \<open>transcribe\<close> with a model loaded runs the inference on them
  and returns its text.
\<close>

theorem transcribe_header_only_fifo_runs_inference:
  "files (example_env 8) ''header.fifo'' = Some (fifo wav_header) \<and>
   length (file_bytes (fifo wav_header)) \<le> 44 \<and>
   read_wav (fifo wav_header) = replicate 22 0 \<and>
   read_wav (fifo wav_header) \<noteq> [] \<and>
   fst (transcribe (example_env 8) (Some ''header.fifo'') loaded_state) = ''hello'' \<and>
   filter is_inference
     (new_events loaded_state
        (snd (transcribe (example_env 8) (Some ''header.fifo'') loaded_state))) =
     [Whisper_full 7 (make_wparams (example_env 8) (g_params loaded_state)) (replicate 22 0)]"
proof -
  have f: "files (example_env 8) ''header.fifo'' = Some (fifo wav_header)"
    by (simp add: example_env_def example_files_def)
  have g: "g_ctx loaded_state = Some 7"
    by (simp add: loaded_state_def)
  have h: "length (file_bytes (fifo wav_header)) \<le> 44"
    by (simp add: fifo_def wav_header_def)
  have r: "read_wav (fifo wav_header) = replicate 22 0"
    by (rule read_wav_header_fifo)
  have n: "read_wav (fifo wav_header) \<noteq> []"
    unfolding r by simp
  have t: "fst (transcribe (example_env 8) (Some ''header.fifo'') loaded_state) = ''hello''"
    using n
    by (simp add: transcribe_def GetStringUTFChars_def Let_def run_inference_def
        collect_segments_def segment_indices_def append_segment_def
        example_env_def example_files_def loaded_state_def)
  have i: "filter is_inference
     (new_events loaded_state
        (snd (transcribe (example_env 8) (Some ''header.fifo'') loaded_state))) =
     [Whisper_full 7 (make_wparams (example_env 8) (g_params loaded_state)) (replicate 22 0)]"
    using transcribe_passes_samples [OF g f n] unfolding r .
  from f h r n t i show ?thesis by (intro conjI)
qed

section \<open>Parameter overrides\<close>

text \<open>
  Claim C3 as stated fails for the empty string: \<open>GetStringUTFChars\<close> decodes it to a
  valid pointer to no characters, the test \<open>lang != nullptr\<close> passes, and \<open>language\<close> is
  overwritten with the empty string.
\<close>

theorem transcribeWithParams_empty_language_counterexample:
  "language (g_params loaded_state) = ''en'' \<and>
   language (g_params (snd (transcribeWithParams (example_env 8) (Some ''two.wav'')
      (Some '''') 0 0 loaded_state))) = ''''"
  by (simp add: transcribeWithParams_def transcribe_params update_params_def
      GetStringUTFChars_def loaded_state_def default_whisper_params_def)

text \<open>
  Claim C3, amended. For every prior language value, \<open>transcribeWithParams\<close> with an
  undecodable language argument leaves \<open>language\<close> at its prior value; with a language
  argument that decodes, the empty string included, it sets \<open>language\<close> to the decoded
  string.
\<close>

theorem transcribeWithParams_language:
  "language (g_params (snd (transcribeWithParams env a None t n s))) = language (g_params s) \<and>
   language (g_params (snd (transcribeWithParams env a (Some lang) t n s))) = lang"
  by (simp add: transcribeWithParams_def transcribe_params update_params_def
      GetStringUTFChars_def Let_def)

text \<open>
  Claim C7. After \<open>transcribeWithParams\<close>, \<open>n_threads\<close> is the supplied value when that
  value is positive and the prior thread count when it is not, and \<open>translate\<close> is the
  supplied flag in every case.
\<close>

theorem transcribeWithParams_threads_translate:
  "(0 < sint threads \<longrightarrow>
      n_threads (g_params (snd (transcribeWithParams env a l t threads s))) = threads) \<and>
   (sint threads \<le> 0 \<longrightarrow>
      n_threads (g_params (snd (transcribeWithParams env a l t threads s))) =
        n_threads (g_params s)) \<and>
   translate (g_params (snd (transcribeWithParams env a l t threads s))) = (t \<noteq> 0)"
  by (simp add: transcribeWithParams_def transcribe_params update_params_def Let_def
      split: option.splits)

theorem transcribeWithParams_threads_translate_witness:
  "0 < sint (8 :: jint) \<and> sint (0 :: jint) \<le> 0 \<and> sint (- 5 :: jint) \<le> 0 \<and>
   n_threads (g_params (snd (transcribeWithParams (example_env 2) (Some ''two.wav'')
      (Some ''de'') 1 8 loaded_state))) = 8 \<and>
   n_threads (g_params (snd (transcribeWithParams (example_env 2) (Some ''two.wav'')
      (Some ''de'') 1 0 loaded_state))) = 4 \<and>
   n_threads (g_params (snd (transcribeWithParams (example_env 2) (Some ''two.wav'')
      (Some ''de'') 1 (- 5) loaded_state))) = 4 \<and>
   translate (g_params (snd (transcribeWithParams (example_env 2) (Some ''two.wav'')
      (Some ''de'') 1 8 loaded_state)))"
  using transcribeWithParams_threads_translate
          [of 8 "example_env 2" "Some ''two.wav''" "Some ''de''" 1 loaded_state]
        transcribeWithParams_threads_translate
          [of 0 "example_env 2" "Some ''two.wav''" "Some ''de''" 1 loaded_state]
        transcribeWithParams_threads_translate
          [of "- 5" "example_env 2" "Some ''two.wav''" "Some ''de''" 1 loaded_state]
  by (simp add: loaded_state_def default_whisper_params_def)

section \<open>The thread count\<close>

lemma sint_std_min: "sint (std_min a b) = min (sint a) (sint b)"
  by (simp add: std_min_def min_def)

lemma initModel_threads:
  "n_threads (g_params (snd (initModel env p s))) =
     (if fst (initModel env p s) = 0 then std_min (hardware_concurrency env) 4
      else n_threads (g_params s))"
  by (simp add: initModel_def GetStringUTFChars_def Let_def free_ctx_simps split: option.splits)

lemma update_params_threads:
  "n_threads (update_params l t n q) = (if 0 < sint n then n else n_threads q)"
  by (simp add: update_params_def Let_def split: option.splits)

lemma step_threads_pos:
  assumes "0 < sint (hardware_concurrency env)" and "0 < sint (n_threads (g_params s))"
  shows "0 < sint (n_threads (g_params (step env c s)))"
proof (cases c)
  case (InitModel p)
  then show ?thesis using assms by (simp add: initModel_threads sint_std_min)
next
  case (Transcribe a)
  then show ?thesis using assms by (simp add: transcribe_params)
next
  case (TranscribeWithParams a l t n)
  then show ?thesis using assms
    by (simp add: transcribeWithParams_def transcribe_params update_params_threads)
next
  case ReleaseModel
  then show ?thesis using assms by (simp add: releaseModel_params)
next
  case GetVersion
  then show ?thesis using assms by (simp add: getVersion_def)
qed

lemma run_threads_pos:
  "cores_known cs \<Longrightarrow> 0 < sint (n_threads (g_params s)) \<Longrightarrow>
   0 < sint (n_threads (g_params (run cs s)))"
proof (induction cs arbitrary: s)
  case Nil
  then show ?case by simp
next
  case (Cons x cs)
  obtain env c where x: "x = (env, c)" by (cases x)
  from Cons.prems x have "0 < sint (hardware_concurrency env)" "cores_known cs" by simp_all
  with Cons.IH [of "step env c s"] Cons.prems(2) x show ?case
    by (simp add: step_threads_pos)
qed

text \<open>
  Claim C4 as stated fails twice. The default of \<open>n_threads\<close> is the constant 4 of the
  struct initialiser (line 29), not the minimum of the core count and 4: with two
  cores that minimum is 2. And \<open>std::thread::hardware_concurrency\<close> may return 0 when
  the count is not known; a successful \<open>initModel\<close> then stores \<open>min(0, 4) = 0\<close>, which
  is not positive.
\<close>

theorem n_threads_positive_counterexample:
  "n_threads (g_params (initial_state :: nat jni_state)) = 4 \<and>
   std_min (hardware_concurrency (example_env 2)) 4 = 2 \<and>
   fst (initModel (example_env 0) (Some ''model.bin'') initial_state) = 0 \<and>
   sint (n_threads (g_params
      (run [(example_env 0, InitModel (Some ''model.bin''))] initial_state))) = 0"
  by (simp add: initModel_threads initModel_def GetStringUTFChars_def example_env_def
      std_min_def initial_state_def default_whisper_params_def Let_def)

text \<open>
  Claim C4, amended. The default value of \<open>n_threads\<close> before any \<open>initModel\<close> is 4;
  every successful \<open>initModel\<close> sets it to the minimum of the hardware concurrency (as
  an \<open>int\<close>) and 4; a parameter override that changes it writes a positive value; and
  in every state reached from the initial one by calls during which the hardware
  reports at least one core, \<open>n_threads\<close> is positive.
\<close>

theorem n_threads_positive_known_cores:
  "cores_known cs \<Longrightarrow>
   0 < sint (n_threads (g_params (run cs initial_state))) \<and>
   n_threads (g_params (initial_state :: 'ctx jni_state)) = 4 \<and>
   (fst (initModel env p s) = 0 \<longrightarrow>
      n_threads (g_params (snd (initModel env p s))) = std_min (hardware_concurrency env) 4 \<and>
      sint (n_threads (g_params (snd (initModel env p s)))) =
        min (sint (hardware_concurrency env)) 4) \<and>
   (n_threads (update_params l t n q) \<noteq> n_threads q \<longrightarrow>
      0 < sint (n_threads (update_params l t n q)))"
  using run_threads_pos [of cs initial_state]
  by (simp add: initModel_threads sint_std_min update_params_threads
      initial_state_def default_whisper_params_def)

theorem n_threads_positive_known_cores_witness:
  "cores_known [(example_env 8, InitModel (Some ''model.bin'')),
                (example_env 2, TranscribeWithParams (Some ''two.wav'') None 0 2)] \<and>
   n_threads (g_params (run [(example_env 8, InitModel (Some ''model.bin'')),
                (example_env 2, TranscribeWithParams (Some ''two.wav'') None 0 2)]
      initial_state)) = 2 \<and>
   fst (initModel (example_env 8) (Some ''model.bin'') (initial_state :: nat jni_state)) = 0 \<and>
   n_threads (g_params (snd (initModel (example_env 8) (Some ''model.bin'')
      (initial_state :: nat jni_state)))) = 4 \<and>
   n_threads (update_params None 0 2 default_whisper_params) \<noteq>
     n_threads default_whisper_params"
  using n_threads_positive_known_cores
          [of "[(example_env 8, InitModel (Some ''model.bin'')),
                (example_env 2, TranscribeWithParams (Some ''two.wav'') None 0 2)]"
              "example_env 8" "Some ''model.bin''" "initial_state :: nat jni_state"
              None 0 2 default_whisper_params]
  by (simp add: initModel_def GetStringUTFChars_def example_env_def std_min_def
      transcribeWithParams_def transcribe_params update_params_def
      initial_state_def default_whisper_params_def Let_def)

section \<open>The stub\<close>

text \<open>
  Claim C9. For every input and every trace, each operation of the stub returns its
  fixed value and appends no engine call and no file access to the trace:
  \<open>initModel\<close> returns -1, which is negative; \<open>transcribe\<close> and \<open>transcribeWithParams\<close>
  return the empty string; \<open>releaseModel\<close> does nothing but log; \<open>getVersion\<close> returns
  the placeholder string.
\<close>

theorem stub_fixed_results:
  "fst (stub_initModel p tr) = - 1 \<and> sint (fst (stub_initModel p tr)) < 0 \<and>
   fst (stub_transcribe a tr) = '''' \<and>
   fst (stub_transcribeWithParams a l t n tr) = '''' \<and>
   fst (stub_getVersion tr) = ''stub-1.0 (whisper.cpp not available)'' \<and>
   filter is_external (drop (length tr) (snd (stub_initModel p tr))) = [] \<and>
   filter is_external (drop (length tr) (snd (stub_transcribe a tr))) = [] \<and>
   filter is_external (drop (length tr) (snd (stub_transcribeWithParams a l t n tr))) = [] \<and>
   filter is_external (drop (length tr) (stub_releaseModel tr)) = [] \<and>
   filter is_external (drop (length tr) (snd (stub_getVersion tr))) = [] \<and>
   take (length tr) (stub_releaseModel tr) = tr"
  by (simp add: stub_initModel_def stub_transcribe_def stub_transcribeWithParams_def
      stub_releaseModel_def stub_getVersion_def is_external_def)

text \<open>
  Claim C10. The stub's \<open>initModel\<close> returns -1 for every input, the same code the
  bridge returns when the path fails to decode (and only then): the value -1 alone
  does not tell a caller which of the two happened.
\<close>

theorem stub_init_code_is_path_decode_code:
  "fst (stub_initModel p tr) = - 1 \<and>
   fst (initModel env None s) = - 1 \<and>
   fst (stub_initModel p tr) = fst (initModel env None s) \<and>
   (fst (initModel env q s) = - 1) = (q = None)"
  by (simp add: stub_initModel_def initModel_def GetStringUTFChars_def Let_def
      split: option.splits)

end
